theory Spec2Isabelle
  imports Main "HOL-Library.Sublist" "HOL-Library.AList"
begin

section \<open>Common data: paths, Python exceptions, the external libraries\<close>

text \<open>
  A resolved absolute path is the list of its components below the root.
  The exceptions are the ones the two scripts can meet; \<open>SystemExit n\<close> is
  what \<open>sys.exit(n)\<close> raises.
\<close>

type_synonym path = "string list"

datatype error =
    SystemExit int
  | TypeError
  | AttributeError
  | KeyError
  | ValueError
  | FileNotFoundError
  | FileExistsError
  | NotADirectoryError
  | IsADirectoryError
  | SameFileError

text \<open>The interpreter turns an uncaught exception into exit status 1.\<close>

fun exit_status :: "error \<Rightarrow> int" where
  "exit_status (SystemExit n) = n"
| "exit_status _ = 1"

section \<open>Build driver (build_packages_v2.py)\<close>

text \<open>
  \<open>pathlib\<close> is outside the repository: \<open>Path(s).resolve()\<close>, the operator
  \<open>/\<close> and \<open>str\<close> are parameters of the model.
\<close>

record pathlib =
  resolve :: "string \<Rightarrow> path"
  join :: "path \<Rightarrow> string \<Rightarrow> path"
  path_str :: "path \<Rightarrow> string"

text \<open>
  The host answers the calls that leave the script: the \<open>k\<close>-th call of
  \<open>subprocess.run\<close> returns \<open>returncode k\<close>, the \<open>k\<close>-th \<open>mkdir\<close> raises
  \<open>mkdir_error k\<close> if that is not \<open>None\<close> (calls counted from 0).
\<close>

record host =
  returncode :: "nat \<Rightarrow> int"
  mkdir_error :: "nat \<Rightarrow> error option"

datatype action =
    Mkdir path
  | Run "string list"
  | PrintConfiguring string string string
  | PrintConfigureFailed string string
  | PrintBuilding string string string
  | PrintBuildFailed string string
  | PrintAllCompleted

record build_args =
  cmake :: string
  build_dir :: "string option"
  preset :: "string list"
  build_type :: "string list"
  package :: "string list"

definition runs :: "action list \<Rightarrow> string list list" where
  "runs tr = concat (map (\<lambda>a. case a of Run c \<Rightarrow> [c] | _ \<Rightarrow> []) tr)"

definition mkdirs :: "action list \<Rightarrow> path list" where
  "mkdirs tr = concat (map (\<lambda>a. case a of Mkdir p \<Rightarrow> [p] | _ \<Rightarrow> []) tr)"

text \<open>\<open>";".join(packages)\<close>\<close>

fun join_str :: "string \<Rightarrow> string list \<Rightarrow> string" where
  "join_str sep [] = []"
| "join_str sep [x] = x"
| "join_str sep (x # y # ys) = x @ sep @ join_str sep (y # ys)"

definition packages_str :: "string list \<Rightarrow> string" where
  "packages_str packages = (if packages \<noteq> [] then join_str '';'' packages else [])"

definition configure_cmd :: "pathlib \<Rightarrow> path \<Rightarrow> path \<Rightarrow> string \<Rightarrow> string \<Rightarrow> string list" where
  "configure_cmd pl cmake_dir bdir bt pr =
     [''cmake'', ''-G'', ''Ninja'', ''-S'', path_str pl cmake_dir, ''-B'', path_str pl bdir,
      ''-DCMAKE_BUILD_TYPE='' @ bt, ''-DARIEO_PRESET='' @ pr]"

definition build_cmd :: "pathlib \<Rightarrow> path \<Rightarrow> string list \<Rightarrow> string list" where
  "build_cmd pl bdir packages =
     [''cmake'', ''--build'', path_str pl bdir]
       @ (if packages \<noteq> [] then [''--target''] @ packages else [])"

definition pair_dir :: "pathlib \<Rightarrow> path \<Rightarrow> string \<times> string \<Rightarrow> path" where
  "pair_dir pl base pb = join pl (join pl base (fst pb)) (snd pb)"

text \<open>
  The body of the inner loop for one (preset, build type) pair. The result is
  \<open>Inl e\<close> for an exception, \<open>Inr (Some rc)\<close> for \<open>return rc\<close>, and
  \<open>Inr None\<close> when the body falls through to the next iteration.
\<close>

definition build_pair ::
  "pathlib \<Rightarrow> host \<Rightarrow> path \<Rightarrow> path \<Rightarrow> string list \<Rightarrow> string \<Rightarrow> string \<Rightarrow> action list
     \<Rightarrow> (error + int option) \<times> action list" where
  "build_pair pl h cmake_dir base packages pr bt tr =
     (let bdir = join pl (join pl base pr) bt in
      case mkdir_error h (length (mkdirs tr)) of
        Some e \<Rightarrow> (Inl e, tr)
      | None \<Rightarrow>
         (let tr1 = tr @ [Mkdir bdir, PrintConfiguring pr bt (packages_str packages)];
              ccmd = configure_cmd pl cmake_dir bdir bt pr;
              rc1 = returncode h (length (runs tr1));
              tr2 = tr1 @ [Run ccmd]
          in if rc1 \<noteq> 0 then (Inr (Some rc1), tr2 @ [PrintConfigureFailed pr bt])
             else
              (let tr3 = tr2 @ [PrintBuilding pr bt (packages_str packages)];
                   bcmd = build_cmd pl bdir packages;
                   rc2 = returncode h (length (runs tr3));
                   tr4 = tr3 @ [Run bcmd]
               in if rc2 \<noteq> 0 then (Inr (Some rc2), tr4 @ [PrintBuildFailed pr bt])
                  else (Inr None, tr4))))"

fun build_types_loop ::
  "pathlib \<Rightarrow> host \<Rightarrow> path \<Rightarrow> path \<Rightarrow> string list \<Rightarrow> string \<Rightarrow> string list \<Rightarrow> action list
     \<Rightarrow> (error + int option) \<times> action list" where
  "build_types_loop pl h cmake_dir base packages pr [] tr = (Inr None, tr)"
| "build_types_loop pl h cmake_dir base packages pr (bt # bts) tr =
     (case build_pair pl h cmake_dir base packages pr bt tr of
        (Inr None, tr') \<Rightarrow> build_types_loop pl h cmake_dir base packages pr bts tr'
      | r \<Rightarrow> r)"

fun presets_loop ::
  "pathlib \<Rightarrow> host \<Rightarrow> path \<Rightarrow> path \<Rightarrow> string list \<Rightarrow> string list \<Rightarrow> string list \<Rightarrow> action list
     \<Rightarrow> (error + int option) \<times> action list" where
  "presets_loop pl h cmake_dir base packages [] bts tr = (Inr None, tr)"
| "presets_loop pl h cmake_dir base packages (pr # prs) bts tr =
     (case build_types_loop pl h cmake_dir base packages pr bts tr of
        (Inr None, tr') \<Rightarrow> presets_loop pl h cmake_dir base packages prs bts tr'
      | r \<Rightarrow> r)"

definition presets_of :: "build_args \<Rightarrow> string list" where
  "presets_of a = (if preset a \<noteq> [] then preset a else [''default''])"

definition build_types_of :: "build_args \<Rightarrow> string list" where
  "build_types_of a = (if build_type a \<noteq> [] then build_type a else [''Release''])"

definition base_build_dir :: "pathlib \<Rightarrow> build_args \<Rightarrow> path" where
  "base_build_dir pl a =
     (case build_dir a of
        Some d \<Rightarrow> (if d \<noteq> [] then resolve pl d else join pl (resolve pl (cmake a)) ''build'')
      | None \<Rightarrow> join pl (resolve pl (cmake a)) ''build'')"

text \<open>\<open>main\<close> of the build driver: the value it returns (or the exception), and the trace.\<close>

definition build_main :: "pathlib \<Rightarrow> host \<Rightarrow> build_args \<Rightarrow> (error + int) \<times> action list" where
  "build_main pl h a =
     (case presets_loop pl h (resolve pl (cmake a)) (base_build_dir pl a) (package a)
             (presets_of a) (build_types_of a) [] of
        (Inl e, tr) \<Rightarrow> (Inl e, tr)
      | (Inr (Some rc), tr) \<Rightarrow> (Inr rc, tr)
      | (Inr None, tr) \<Rightarrow> (Inr 0, tr @ [PrintAllCompleted]))"


text \<open>
  The nested loops visit the pairs of \<open>List.product presets build_types\<close>; this is the
  same loop over the flat list of pairs, and the two commands of a pair.
\<close>

fun pairs_loop ::
  "pathlib \<Rightarrow> host \<Rightarrow> path \<Rightarrow> path \<Rightarrow> string list \<Rightarrow> (string \<times> string) list \<Rightarrow> action list
     \<Rightarrow> (error + int option) \<times> action list" where
  "pairs_loop pl h cmake_dir base packages [] tr = (Inr None, tr)"
| "pairs_loop pl h cmake_dir base packages (pb # pbs) tr =
     (case build_pair pl h cmake_dir base packages (fst pb) (snd pb) tr of
        (Inr None, tr') \<Rightarrow> pairs_loop pl h cmake_dir base packages pbs tr'
      | r \<Rightarrow> r)"

definition pair_cmds ::
  "pathlib \<Rightarrow> path \<Rightarrow> path \<Rightarrow> string list \<Rightarrow> string \<times> string \<Rightarrow> string list list" where
  "pair_cmds pl cmake_dir base packages pb =
     [configure_cmd pl cmake_dir (pair_dir pl base pb) (snd pb) (fst pb),
      build_cmd pl (pair_dir pl base pb) packages]"

text \<open>A concrete \<open>pathlib\<close> for simple names, and concrete runs, to evaluate the driver on.\<close>

definition simple_pathlib :: pathlib where
  "simple_pathlib =
     \<lparr>resolve = (\<lambda>s. [s]), join = (\<lambda>p s. p @ [s]),
      path_str = (\<lambda>p. concat (map (\<lambda>c. ''/'' @ c) p))\<rparr>"

definition host_ok :: host where
  "host_ok = \<lparr>returncode = (\<lambda>k. 0), mkdir_error = (\<lambda>k. None)\<rparr>"

definition host_configure_fails :: host where
  "host_configure_fails = \<lparr>returncode = (\<lambda>k. if k = 0 then 2 else 0), mkdir_error = (\<lambda>k. None)\<rparr>"

definition args_AB :: build_args where
  "args_AB =
     \<lparr>cmake = ''src'', build_dir = None, preset = [''A'', ''B''],
      build_type = [''Debug'', ''Release''], package = [''core'', ''gui'']\<rparr>"

section \<open>Strings and YAML values (gather_packages.py)\<close>

text \<open>\<open>s.split(c)\<close> for a one-character separator: never the empty list.\<close>

fun split_on :: "char \<Rightarrow> string \<Rightarrow> string list" where
  "split_on c [] = [[]]"
| "split_on c (x # xs) =
     (if x = c then [] # split_on c xs
      else (case split_on c xs of
              w # ws \<Rightarrow> (x # w) # ws
            | [] \<Rightarrow> [[x]]))"

text \<open>\<open>s.rstrip(c)\<close>\<close>

definition rstrip :: "char \<Rightarrow> string \<Rightarrow> string" where
  "rstrip c s = rev (dropWhile (\<lambda>x. x = c) (rev s))"

text \<open>
  \<open>s.replace(old, new)\<close> for non-empty \<open>old\<close>: every occurrence, left to right,
  without overlap.
\<close>

function replace_all :: "string \<Rightarrow> string \<Rightarrow> string \<Rightarrow> string" where
  "replace_all old new [] = []"
| "replace_all old new (c # cs) =
     (if old \<noteq> [] \<and> prefix old (c # cs)
      then new @ replace_all old new (drop (length old) (c # cs))
      else c # replace_all old new cs)"
  by pat_completeness auto
termination
  by (relation "measure (\<lambda>(old, new, s). length s)") auto

text \<open>\<open>k in s\<close> for strings: \<open>k\<close> occurs in \<open>s\<close> as a contiguous piece.\<close>

fun contains_str :: "string \<Rightarrow> string \<Rightarrow> bool" where
  "contains_str k [] = (k = [])"
| "contains_str k (c # cs) = (prefix k (c # cs) \<or> contains_str k cs)"

text \<open>The characters \<open>str.strip()\<close> removes, among the ASCII ones.\<close>

definition is_space :: "char \<Rightarrow> bool" where
  "is_space c = (of_char c \<in> {9, 10, 11, 12, 13, 28, 29, 30, 31, 32 :: nat})"

definition strip :: "string \<Rightarrow> string" where
  "strip s = rev (dropWhile is_space (rev (dropWhile is_space s)))"

text \<open>
  Lines 151-152: the repository name shown for a \<open>git\<close> entry.
\<close>

definition repo_name :: "string \<Rightarrow> string" where
  "repo_name git_url =
     (let url_part = hd (split_on CHR ''@'' git_url)
      in replace_all ''.git'' [] (last (split_on CHR ''/'' (rstrip CHR ''/'' url_part))))"

text \<open>
  The same name as the specification words it: strip a trailing \<open>@ref\<close>, take the last
  path segment, strip a trailing \<open>.git\<close> from that segment.
\<close>

definition strip_trailing_ref :: "string \<Rightarrow> string" where
  "strip_trailing_ref s =
     (if CHR ''@'' \<in> set s then rev (tl (dropWhile (\<lambda>x. x \<noteq> CHR ''@'') (rev s))) else s)"

definition strip_git_suffix :: "string \<Rightarrow> string" where
  "strip_git_suffix s = (if suffix ''.git'' s then take (length s - 4) s else s)"

definition repo_name_spec :: "string \<Rightarrow> string" where
  "repo_name_spec git_url =
     strip_git_suffix (last (split_on CHR ''/'' (strip_trailing_ref git_url)))"

text \<open>What \<open>yaml.safe_load\<close> returns; a \<open>dict\<close> is the list of its items, keys distinct.\<close>

datatype yaml =
    YNull
  | YBool bool
  | YInt int
  | YStr string
  | YList "yaml list"
  | YDict "(yaml \<times> yaml) list"

type_synonym pydict = "(yaml \<times> yaml) list"

fun truthy :: "yaml \<Rightarrow> bool" where
  "truthy YNull = False"
| "truthy (YBool b) = b"
| "truthy (YInt i) = (i \<noteq> 0)"
| "truthy (YStr s) = (s \<noteq> [])"
| "truthy (YList xs) = (xs \<noteq> [])"
| "truthy (YDict kvs) = (kvs \<noteq> [])"

fun is_str :: "yaml \<Rightarrow> bool" where
  "is_str (YStr s) = True"
| "is_str _ = False"

fun type_name :: "yaml \<Rightarrow> string" where
  "type_name YNull = ''NoneType''"
| "type_name (YBool b) = ''bool''"
| "type_name (YInt i) = ''int''"
| "type_name (YStr s) = ''str''"
| "type_name (YList xs) = ''list''"
| "type_name (YDict kvs) = ''dict''"

text \<open>\<open>d.get(k, default)\<close> on a dict with a string key.\<close>

definition dict_get :: "pydict \<Rightarrow> string \<Rightarrow> yaml \<Rightarrow> yaml" where
  "dict_get d k dflt = (case map_of d (YStr k) of Some v \<Rightarrow> v | None \<Rightarrow> dflt)"

text \<open>\<open>k in x\<close>, \<open>x[k]\<close>, \<open>len(x)\<close> and iteration, for a string key \<open>k\<close> and any value \<open>x\<close>.\<close>

fun py_in :: "string \<Rightarrow> yaml \<Rightarrow> error + bool" where
  "py_in k (YDict kvs) = Inr (map_of kvs (YStr k) \<noteq> None)"
| "py_in k (YStr s) = Inr (contains_str k s)"
| "py_in k (YList xs) = Inr (YStr k \<in> set xs)"
| "py_in k _ = Inl TypeError"

fun py_getitem :: "yaml \<Rightarrow> string \<Rightarrow> error + yaml" where
  "py_getitem (YDict kvs) k = (case map_of kvs (YStr k) of Some v \<Rightarrow> Inr v | None \<Rightarrow> Inl KeyError)"
| "py_getitem _ k = Inl TypeError"

fun py_len :: "yaml \<Rightarrow> error + nat" where
  "py_len (YStr s) = Inr (length s)"
| "py_len (YList xs) = Inr (length xs)"
| "py_len (YDict kvs) = Inr (length kvs)"
| "py_len _ = Inl TypeError"

fun py_iter :: "yaml \<Rightarrow> error + yaml list" where
  "py_iter (YStr s) = Inr (map (\<lambda>c. YStr [c]) s)"
| "py_iter (YList xs) = Inr xs"
| "py_iter (YDict kvs) = Inr (map fst kvs)"
| "py_iter _ = Inl TypeError"


section \<open>The file system and the libraries of the gatherer\<close>

text \<open>
  A file system maps the paths that exist to a node; nothing is a symbolic link.
  It is a tree when the root is a directory and every existing path lies in a
  directory.
\<close>

datatype node = File string | Dir

type_synonym fs = "path \<Rightarrow> node option"

definition wf_fs :: "fs \<Rightarrow> bool" where
  "wf_fs fs = (fs [] = Some Dir \<and> (\<forall>p c. fs (p @ [c]) \<noteq> None \<longrightarrow> fs p = Some Dir))"

text \<open>\<open>Path.exists()\<close>\<close>

definition exists_path :: "fs \<Rightarrow> path \<Rightarrow> bool" where
  "exists_path fs p = (fs p \<noteq> None)"

text \<open>\<open>open(p).read()\<close>\<close>

definition read_text :: "fs \<Rightarrow> path \<Rightarrow> error + string" where
  "read_text fs p =
     (case fs p of
        None \<Rightarrow> Inl FileNotFoundError
      | Some Dir \<Rightarrow> Inl IsADirectoryError
      | Some (File c) \<Rightarrow> Inr c)"

text \<open>\<open>shutil.rmtree(p)\<close>\<close>

definition rmtree :: "fs \<Rightarrow> path \<Rightarrow> error + fs" where
  "rmtree fs p =
     (case fs p of
        None \<Rightarrow> Inl FileNotFoundError
      | Some (File c) \<Rightarrow> Inl NotADirectoryError
      | Some Dir \<Rightarrow> Inr (\<lambda>q. if prefix p q then None else fs q))"

text \<open>
  \<open>p.mkdir(parents=True, exist_ok=True)\<close>: every missing directory on the way to
  \<open>p\<close> is created; a file on the way raises.
\<close>

fun mkdir_from :: "path \<Rightarrow> string list \<Rightarrow> fs \<Rightarrow> error + fs" where
  "mkdir_from base [] fs = Inr fs"
| "mkdir_from base (c # cs) fs =
     (case fs (base @ [c]) of
        None \<Rightarrow> mkdir_from (base @ [c]) cs (fs(base @ [c] \<mapsto> Dir))
      | Some Dir \<Rightarrow> mkdir_from (base @ [c]) cs fs
      | Some (File x) \<Rightarrow> Inl (if cs = [] then FileExistsError else NotADirectoryError))"

definition mkdir_parents :: "fs \<Rightarrow> path \<Rightarrow> error + fs" where
  "mkdir_parents fs p = mkdir_from [] p fs"

definition basename :: "path \<Rightarrow> string" where
  "basename p = (if p = [] then [] else last p)"

text \<open>
  \<open>shutil.copy2(src, dst)\<close>: into \<open>dst\<close> when \<open>dst\<close> is a directory; the same file
  as source and target raises; the content of the target is replaced.
\<close>

definition copy_target :: "fs \<Rightarrow> path \<Rightarrow> path \<Rightarrow> path" where
  "copy_target fs src dst = (if fs dst = Some Dir then dst @ [basename src] else dst)"

definition copy2 :: "fs \<Rightarrow> path \<Rightarrow> path \<Rightarrow> error + fs" where
  "copy2 fs src dst =
     (let target = copy_target fs src dst in
      if fs src \<noteq> None \<and> src = target then Inl SameFileError
      else
        (case fs src of
           None \<Rightarrow> Inl FileNotFoundError
         | Some Dir \<Rightarrow> Inl IsADirectoryError
         | Some (File c) \<Rightarrow>
            (case fs target of
               Some Dir \<Rightarrow> Inl IsADirectoryError
             | _ \<Rightarrow>
               (case fs (butlast target) of
                  Some Dir \<Rightarrow> Inr (fs(target \<mapsto> File c))
                | Some (File x) \<Rightarrow> Inl NotADirectoryError
                | None \<Rightarrow> Inl FileNotFoundError))))"

text \<open>
  The libraries: \<open>pathlib\<close> as above (\<open>join b s\<close> is where the system finds
  \<open>b / s\<close>), \<open>yaml.safe_load\<close> (\<open>Inl msg\<close> is a \<open>yaml.YAMLError\<close> with text
  \<open>msg\<close>), \<open>os.path.expandvars\<close>, the text of an exception, and
  \<open>relative_dest b s\<close> for \<open>(b / s / 'ArieoPackage.yaml').relative_to(b)\<close>, which
  raises \<open>ValueError\<close> when the path is not below \<open>b\<close>.
\<close>

record libs = pathlib +
  safe_load :: "string \<Rightarrow> string + yaml"
  expandvars :: "string \<Rightarrow> string"
  error_text :: "error \<Rightarrow> string"
  relative_dest :: "path \<Rightarrow> string \<Rightarrow> error + string"

text \<open>\<open>PurePosixPath(s).is_absolute()\<close>\<close>

definition is_absolute :: "string \<Rightarrow> bool" where
  "is_absolute s = (case s of [] \<Rightarrow> False | c # cs \<Rightarrow> c = CHR ''/'')"

text \<open>What the gatherer prints, one constructor for each \<open>print\<close> call.\<close>

datatype event =
    Banner
  | ManifestNotFound
  | ManifestNotFoundAt path
  | ManifestReadFailed string
  | ValidYaml string yaml
  | NoPackagesDefined
  | CleaningCache path
  | ProcessingEntries nat
  | SkippingGit nat nat string
  | UnknownEntryFormat nat nat yaml
  | PackageFolderNotFound nat nat path
  | DescriptorNotFound nat nat path
  | InvalidYaml nat nat "string option"
  | GatheredTo nat nat string string
  | Gathered nat nat string
  | Results nat nat nat
  | VerboseDirs path path
  | GatheringComplete nat path
  | NoPackagesGathered

record world =
  files :: fs
  out :: "event list"

definition print :: "event \<Rightarrow> world \<Rightarrow> world" where
  "print e w = w\<lparr>out := out w @ [e]\<rparr>"

section \<open>verify_yaml and load_manifest\<close>

definition descriptor_name :: string where
  "descriptor_name = ''ArieoPackage.yaml''"

definition missing_name_msg :: string where
  "missing_name_msg = ''Missing required field: '' @ [CHR 0x27] @ ''name'' @ [CHR 0x27]"

definition bad_name_msg :: string where
  "bad_name_msg = ''Field '' @ [CHR 0x27] @ ''name'' @ [CHR 0x27] @ '' must be a non-empty string''"

text \<open>
  The checks of \<open>verify_yaml\<close> on the parsed document (lines 82-98).
\<close>

definition check_data :: "yaml \<Rightarrow> bool \<times> yaml option \<times> string option" where
  "check_data data =
     (if data = YNull then (False, None, Some ''YAML file is empty or contains only comments'')
      else
        (case data of
           YDict kvs \<Rightarrow>
             (case map_of kvs (YStr ''name'') of
                None \<Rightarrow> (False, None, Some missing_name_msg)
              | Some v \<Rightarrow>
                  (if \<not> truthy v \<or> \<not> is_str v then (False, None, Some bad_name_msg)
                   else (True, Some data, None)))
         | _ \<Rightarrow> (False, None, Some (''YAML root must be a dictionary, got '' @ type_name data))))"

text \<open>
  \<open>verify_yaml\<close>: the triple it returns, and what it prints when \<open>verbose\<close>.
  The two \<open>except\<close> clauses are the branches for a parser error and for a failing
  \<open>open\<close>.
\<close>

definition verify_yaml ::
  "libs \<Rightarrow> fs \<Rightarrow> path \<Rightarrow> bool \<Rightarrow> (bool \<times> yaml option \<times> string option) \<times> event list" where
  "verify_yaml L fs yaml_path verbose =
     (if \<not> exists_path fs yaml_path
      then ((False, None, Some (''File does not exist: '' @ path_str L yaml_path)), [])
      else
        (case read_text fs yaml_path of
           Inl e \<Rightarrow> ((False, None, Some (''Error reading file: '' @ error_text L e)), [])
         | Inr content \<Rightarrow>
            (if strip content = [] then ((False, None, Some ''YAML file is empty''), [])
             else
               (case safe_load L content of
                  Inl msg \<Rightarrow> ((False, None, Some (''YAML syntax error: '' @ msg)), [])
                | Inr data \<Rightarrow>
                   (let r = check_data data in
                    (r, if fst r \<and> verbose
                        then [ValidYaml (basename yaml_path)
                                (case py_getitem data ''name'' of Inr v \<Rightarrow> v | Inl e \<Rightarrow> YNull)]
                        else []))))))"

text \<open>Lines 46-54 of \<open>load_manifest\<close>: read, parse, record the directory.\<close>

definition read_manifest :: "libs \<Rightarrow> fs \<Rightarrow> path \<Rightarrow> (error + pydict) \<times> event list" where
  "read_manifest L fs manifest_path =
     (case read_text fs manifest_path of
        Inl e \<Rightarrow> (Inl (SystemExit 1), [ManifestReadFailed (error_text L e)])
      | Inr content \<Rightarrow>
         (case safe_load L content of
            Inl msg \<Rightarrow> (Inl (SystemExit 1), [ManifestReadFailed msg])
          | Inr data \<Rightarrow>
             (case (if truthy data then data else YDict []) of
                YDict kvs \<Rightarrow>
                  (Inr (AList.update (YStr ''_manifest_dir'')
                          (YStr (path_str L (butlast manifest_path))) kvs), [])
              | _ \<Rightarrow> (Inl (SystemExit 1), [ManifestReadFailed (error_text L TypeError)]))))"

definition load_manifest :: "libs \<Rightarrow> fs \<Rightarrow> string option \<Rightarrow> (error + pydict) \<times> event list" where
  "load_manifest L fs manifest_file_path =
     (case (case manifest_file_path of None \<Rightarrow> [] | Some s \<Rightarrow> s) of
        [] \<Rightarrow>
          (let yaml_path = resolve L ''packages.manifest.yaml'' in
           if exists_path fs yaml_path then read_manifest L fs yaml_path
           else (Inl (SystemExit 1), [ManifestNotFound]))
      | c # cs \<Rightarrow>
          (let manifest_path = resolve L (c # cs) in
           if \<not> exists_path fs manifest_path
           then (Inl (SystemExit 1), [ManifestNotFoundAt manifest_path])
           else read_manifest L fs manifest_path))"


section \<open>gather_packages_from_manifest and main\<close>

record counts =
  copied :: nat
  skipped :: nat
  errors :: nat

definition manifest_dir_var :: string where
  "manifest_dir_var = ''${CUR_MANIFEST_FILE_DIR}''"

text \<open>Lines 143-147: the package folder of a \<open>local\<close> entry.\<close>

definition local_package_path :: "libs \<Rightarrow> path \<Rightarrow> string \<Rightarrow> path" where
  "local_package_path L manifest_dir local_path =
     resolve L (expandvars L (replace_all manifest_dir_var (path_str L manifest_dir) local_path))"

text \<open>Lines 184-200: create the destination folder, copy, count, print.\<close>

definition copy_descriptor ::
  "libs \<Rightarrow> path \<Rightarrow> bool \<Rightarrow> nat \<Rightarrow> nat \<Rightarrow> path \<Rightarrow> yaml option \<Rightarrow> counts \<Rightarrow> world
     \<Rightarrow> (error + counts) \<times> world" where
  "copy_descriptor L cache_dir vb idx tot arieo_yaml_path pkg_data cnt w =
     (case pkg_data of
        None \<Rightarrow> (Inl TypeError, w)
      | Some data \<Rightarrow>
         (case py_getitem data ''name'' of
            Inl e \<Rightarrow> (Inl e, w)
          | Inr (YStr pkg_name) \<Rightarrow>
             (let dest_folder = join L cache_dir pkg_name in
              case mkdir_parents (files w) dest_folder of
                Inl e \<Rightarrow> (Inl e, w)
              | Inr fs1 \<Rightarrow>
                 (let dest_path = dest_folder @ [descriptor_name] in
                  case copy2 fs1 arieo_yaml_path dest_path of
                    Inl e \<Rightarrow> (Inl e, w\<lparr>files := fs1\<rparr>)
                  | Inr fs2 \<Rightarrow>
                     (let cnt' = cnt\<lparr>copied := copied cnt + 1\<rparr>;
                          w2 = w\<lparr>files := fs2\<rparr>
                      in if vb
                         then (case relative_dest L cache_dir pkg_name of
                                 Inl e \<Rightarrow> (Inl e, w2)
                               | Inr rel \<Rightarrow> (Inr cnt', print (GatheredTo idx tot pkg_name rel) w2))
                         else (Inr cnt', print (Gathered idx tot pkg_name) w2))))
          | Inr _ \<Rightarrow> (Inl TypeError, w)))"

text \<open>Lines 162-182: the package folder, its descriptor, the validation.\<close>

definition gather_local ::
  "libs \<Rightarrow> path \<Rightarrow> bool \<Rightarrow> nat \<Rightarrow> nat \<Rightarrow> path \<Rightarrow> counts \<Rightarrow> world \<Rightarrow> (error + counts) \<times> world" where
  "gather_local L cache_dir vb idx tot package_path cnt w =
     (if \<not> exists_path (files w) package_path
      then (Inr (cnt\<lparr>errors := errors cnt + 1\<rparr>), print (PackageFolderNotFound idx tot package_path) w)
      else
        (let arieo_yaml_path = package_path @ [descriptor_name] in
         if \<not> exists_path (files w) arieo_yaml_path
         then (Inr (cnt\<lparr>errors := errors cnt + 1\<rparr>), print (DescriptorNotFound idx tot package_path) w)
         else
           (case verify_yaml L (files w) arieo_yaml_path False of
              ((is_valid, pkg_data, error_msg), evs) \<Rightarrow>
                (let w1 = w\<lparr>out := out w @ evs\<rparr> in
                 if \<not> is_valid
                 then (Inr (cnt\<lparr>errors := errors cnt + 1\<rparr>), print (InvalidYaml idx tot error_msg) w1)
                 else copy_descriptor L cache_dir vb idx tot arieo_yaml_path pkg_data cnt w1))))"

text \<open>The body of the loop over the entries (lines 141-200).\<close>

definition process_entry ::
  "libs \<Rightarrow> path \<Rightarrow> path \<Rightarrow> bool \<Rightarrow> nat \<Rightarrow> nat \<Rightarrow> yaml \<Rightarrow> counts \<Rightarrow> world \<Rightarrow> (error + counts) \<times> world" where
  "process_entry L manifest_dir cache_dir vb tot idx entry cnt w =
     (case py_in ''local'' entry of
        Inl e \<Rightarrow> (Inl e, w)
      | Inr has_local \<Rightarrow>
         (if has_local
          then
            (case py_getitem entry ''local'' of
               Inl e \<Rightarrow> (Inl e, w)
             | Inr (YStr local_path) \<Rightarrow>
                 gather_local L cache_dir vb idx tot
                   (local_package_path L manifest_dir local_path) cnt w
             | Inr _ \<Rightarrow> (Inl AttributeError, w))
          else
            (case py_in ''git'' entry of
               Inl e \<Rightarrow> (Inl e, w)
             | Inr has_git \<Rightarrow>
                (if has_git
                 then
                   (case py_getitem entry ''git'' of
                      Inl e \<Rightarrow> (Inl e, w)
                    | Inr (YStr git_url) \<Rightarrow>
                        (Inr (cnt\<lparr>skipped := skipped cnt + 1\<rparr>),
                         if vb then print (SkippingGit idx tot (repo_name git_url)) w else w)
                    | Inr _ \<Rightarrow> (Inl AttributeError, w))
                 else
                   (Inr (cnt\<lparr>errors := errors cnt + 1\<rparr>),
                    print (UnknownEntryFormat idx tot entry) w)))))"

fun entries_loop ::
  "libs \<Rightarrow> path \<Rightarrow> path \<Rightarrow> bool \<Rightarrow> nat \<Rightarrow> nat \<Rightarrow> yaml list \<Rightarrow> counts \<Rightarrow> world
     \<Rightarrow> (error + counts) \<times> world" where
  "entries_loop L manifest_dir cache_dir vb tot idx [] cnt w = (Inr cnt, w)"
| "entries_loop L manifest_dir cache_dir vb tot idx (entry # rest) cnt w =
     (case process_entry L manifest_dir cache_dir vb tot idx entry cnt w of
        (Inl e, w') \<Rightarrow> (Inl e, w')
      | (Inr cnt', w') \<Rightarrow> entries_loop L manifest_dir cache_dir vb tot (Suc idx) rest cnt' w')"

definition no_counts :: counts where
  "no_counts = \<lparr>copied = 0, skipped = 0, errors = 0\<rparr>"

text \<open>Lines 126-132: the clean step and the creation of the cache directory.\<close>

definition prepare_cache :: "path \<Rightarrow> bool \<Rightarrow> bool \<Rightarrow> world \<Rightarrow> (error + unit) \<times> world" where
  "prepare_cache cache_dir cl vb w =
     (case (if cl \<and> exists_path (files w) cache_dir
            then (let w1 = (if vb then print (CleaningCache cache_dir) w else w) in
                  case rmtree (files w1) cache_dir of
                    Inl e \<Rightarrow> (Inl e, w1)
                  | Inr fs1 \<Rightarrow> (Inr (), w1\<lparr>files := fs1\<rparr>))
            else (Inr (), w)) of
        (Inl e, w1) \<Rightarrow> (Inl e, w1)
      | (Inr u, w1) \<Rightarrow>
         (case mkdir_parents (files w1) cache_dir of
            Inl e \<Rightarrow> (Inl e, w1)
          | Inr fs2 \<Rightarrow> (Inr (), w1\<lparr>files := fs2\<rparr>)))"

definition gather_packages_from_manifest ::
  "libs \<Rightarrow> pydict \<Rightarrow> path \<Rightarrow> bool \<Rightarrow> bool \<Rightarrow> world \<Rightarrow> (error + nat) \<times> world" where
  "gather_packages_from_manifest L manifest cache_dir cl vb w =
     (case dict_get manifest ''_manifest_dir'' (YStr ''.'') of
        YStr md \<Rightarrow>
         (let manifest_dir = resolve L md;
              packages_list = dict_get manifest ''packages'' (YList [])
          in if \<not> truthy packages_list then (Inr 0, print NoPackagesDefined w)
             else
              (case prepare_cache cache_dir cl vb w of
                 (Inl e, w1) \<Rightarrow> (Inl e, w1)
               | (Inr u, w1) \<Rightarrow>
                  (case py_len packages_list of
                     Inl e \<Rightarrow> (Inl e, w1)
                   | Inr tot \<Rightarrow>
                      (case py_iter packages_list of
                         Inl e \<Rightarrow> (Inl e, print (ProcessingEntries tot) w1)
                       | Inr entries \<Rightarrow>
                          (case entries_loop L manifest_dir cache_dir vb tot 1 entries no_counts
                                  (print (ProcessingEntries tot) w1) of
                             (Inl e, w2) \<Rightarrow> (Inl e, w2)
                           | (Inr cnt, w2) \<Rightarrow>
                               (Inr (copied cnt),
                                print (Results (copied cnt) (skipped cnt) (errors cnt)) w2))))))
      | _ \<Rightarrow> (Inl TypeError, w))"

record gather_args =
  arg_manifest_file :: "string option"
  arg_clean :: bool
  arg_verbose :: bool

text \<open>Lines 246-257 of \<open>main\<close>: the manifest directory and the cache directory.\<close>

definition cache_dir_of :: "libs \<Rightarrow> pydict \<Rightarrow> error + path \<times> path" where
  "cache_dir_of L manifest =
     (case dict_get manifest ''_manifest_dir'' (YStr ''.'') of
        YStr md \<Rightarrow>
         (let manifest_dir = resolve L md in
          case dict_get manifest ''pachages_cache_folder'' (YStr ''./.cache'') of
            YStr cache_folder_raw \<Rightarrow>
              (let cache_folder_expanded =
                     expandvars L (replace_all manifest_dir_var (path_str L manifest_dir) cache_folder_raw)
               in Inr (manifest_dir,
                       if is_absolute cache_folder_expanded then resolve L cache_folder_expanded
                       else join L manifest_dir cache_folder_expanded))
          | _ \<Rightarrow> Inl AttributeError)
      | _ \<Rightarrow> Inl TypeError)"

text \<open>Lines 241-261: everything \<open>main\<close> does before it gathers.\<close>

definition startup :: "libs \<Rightarrow> gather_args \<Rightarrow> world \<Rightarrow> (error + pydict \<times> path) \<times> world" where
  "startup L a w0 =
     (let w1 = print Banner w0 in
      case load_manifest L (files w1) (arg_manifest_file a) of
        (Inl e, evs) \<Rightarrow> (Inl e, w1\<lparr>out := out w1 @ evs\<rparr>)
      | (Inr manifest, evs) \<Rightarrow>
         (let w2 = w1\<lparr>out := out w1 @ evs\<rparr> in
          case cache_dir_of L manifest of
            Inl e \<Rightarrow> (Inl e, w2)
          | Inr (manifest_dir, cache_dir) \<Rightarrow>
              (Inr (manifest, cache_dir),
               if arg_verbose a then print (VerboseDirs manifest_dir cache_dir) w2 else w2)))"

text \<open>
  \<open>main\<close> of the gatherer: the exception that ends the process (\<open>sys.exit\<close> raises
  \<open>SystemExit\<close>) and the world it leaves.
\<close>

definition gatherer_main :: "libs \<Rightarrow> gather_args \<Rightarrow> world \<Rightarrow> error \<times> world" where
  "gatherer_main L a w0 =
     (case startup L a w0 of
        (Inl e, w) \<Rightarrow> (e, w)
      | (Inr (manifest, cache_dir), w) \<Rightarrow>
         (case gather_packages_from_manifest L manifest cache_dir (arg_clean a) (arg_verbose a) w of
            (Inl e, w') \<Rightarrow> (e, w')
          | (Inr count, w') \<Rightarrow>
              (SystemExit (if count > 0 then 0 else 1),
               print (if count > 0 then GatheringComplete count cache_dir else NoPackagesGathered) w')))"

text \<open>The manifest path \<open>load_manifest\<close> opens.\<close>

definition manifest_path_of :: "libs \<Rightarrow> gather_args \<Rightarrow> path" where
  "manifest_path_of L a =
     (case arg_manifest_file a of
        None \<Rightarrow> resolve L ''packages.manifest.yaml''
      | Some s \<Rightarrow> (if s = [] then resolve L ''packages.manifest.yaml'' else resolve L s))"


text \<open>One step of the loop adds one to exactly one of the three counters.\<close>

definition bumps_one :: "counts \<Rightarrow> counts \<Rightarrow> bool" where
  "bumps_one cnt cnt' =
     (cnt' = cnt\<lparr>copied := copied cnt + 1\<rparr>
    \<or> cnt' = cnt\<lparr>skipped := skipped cnt + 1\<rparr>
    \<or> cnt' = cnt\<lparr>errors := errors cnt + 1\<rparr>)"


text \<open>
  A small library instance and documents to evaluate the gatherer on: the parser is a
  table of the documents used, paths are split at \<open>/\<close>.
\<close>

definition path_parts :: "string \<Rightarrow> path" where
  "path_parts s = filter (\<lambda>c. c \<noteq> [] \<and> c \<noteq> ''.'') (split_on CHR ''/'' s)"

definition demo_manifest :: yaml where
  "demo_manifest =
     YDict [(YStr ''packages'',
             YList [YDict [(YStr ''local'', YStr ''/pkgs/a'')],
                    YDict [(YStr ''local'', YStr ''/pkgs/missing'')],
                    YDict [(YStr ''git'', YStr ''https://example.org/team/tool.git@v1'')]])]"

definition doc_table :: "(string \<times> yaml) list" where
  "doc_table =
     [(''# only a comment'', YNull),
      (''version: 1'', YDict [(YStr ''version'', YInt 1)]),
      (''name: 123'', YDict [(YStr ''name'', YInt 123)]),
      (''name: A'', YDict [(YStr ''name'', YStr ''A'')]),
      (''name: A # second'', YDict [(YStr ''name'', YStr ''A'')]),
      (''name: A # third'', YDict [(YStr ''name'', YStr ''A'')]),
      (''name: B'', YDict [(YStr ''name'', YStr ''B'')]),
      (''demo manifest'', demo_manifest)]"

definition demo_libs :: libs where
  "demo_libs =
     \<lparr>resolve = path_parts,
      join = (\<lambda>p s. p @ path_parts s),
      path_str = (\<lambda>p. if p = [] then ''/'' else concat (map (\<lambda>c. ''/'' @ c) p)),
      safe_load = (\<lambda>s. case map_of doc_table s of Some v \<Rightarrow> Inr v | None \<Rightarrow> Inl ''cannot parse''),
      expandvars = (\<lambda>s. s),
      error_text = (\<lambda>e. ''error''),
      relative_dest = (\<lambda>b s. if is_absolute s then Inl ValueError else Inr (s @ ''/ArieoPackage.yaml''))\<rparr>"

definition demo_files :: fs where
  "demo_files =
     map_of [([], Dir),
             ([''packages.manifest.yaml''], File ''demo manifest''),
             ([''pkgs''], Dir),
             ([''pkgs'', ''a''], Dir),
             ([''pkgs'', ''a'', ''ArieoPackage.yaml''], File ''name: A''),
             ([''pkgs'', ''b''], Dir),
             ([''pkgs'', ''b'', ''ArieoPackage.yaml''], File ''name: A # second''),
             ([''pkgs'', ''c''], Dir),
             ([''pkgs'', ''c'', ''ArieoPackage.yaml''], File ''name: A # third''),
             ([''pkgs'', ''d''], Dir),
             ([''pkgs'', ''d'', ''ArieoPackage.yaml''], File ''name: B''),
             ([''docs''], Dir),
             ([''docs'', ''comment.yaml''], File ''# only a comment''),
             ([''docs'', ''noname.yaml''], File ''version: 1''),
             ([''docs'', ''number.yaml''], File ''name: 123'')]"

definition demo_world :: world where
  "demo_world = \<lparr>files = demo_files, out = []\<rparr>"

definition both_tags_entry :: yaml where
  "both_tags_entry =
     YDict [(YStr ''local'', YStr ''/pkgs/a''),
            (YStr ''git'', YStr ''https://example.org/team/tool.git'')]"

definition demo_args :: gather_args where
  "demo_args = \<lparr>arg_manifest_file = None, arg_clean = False, arg_verbose = False\<rparr>"

definition demo_args_missing :: gather_args where
  "demo_args_missing = \<lparr>arg_manifest_file = Some ''/nowhere.yaml'', arg_clean = False, arg_verbose = False\<rparr>"

definition demo_loaded :: pydict where
  "demo_loaded =
     [(YStr ''packages'',
       YList [YDict [(YStr ''local'', YStr ''/pkgs/a'')],
              YDict [(YStr ''local'', YStr ''/pkgs/missing'')],
              YDict [(YStr ''git'', YStr ''https://example.org/team/tool.git@v1'')]]),
      (YStr ''_manifest_dir'', YStr ''/'')]"

definition demo_loaded_empty :: pydict where
  "demo_loaded_empty = [(YStr ''packages'', YList []), (YStr ''_manifest_dir'', YStr ''/'')]"


section \<open>The effect of the loop on the file system\<close>

text \<open>
  The loop of \<open>gather_packages_from_manifest\<close> seen from the file system alone, without
  what it prints: which descriptor an entry reads, which name its content declares, which
  file the copy writes, and the file system and counters after each entry. The lemmas
  below show that \<open>entries_loop\<close> has exactly this effect.
\<close>

text \<open>No node of \<open>fs\<close> has disappeared or changed its kind in \<open>fs'\<close>.\<close>

definition extends :: "fs \<Rightarrow> fs \<Rightarrow> bool" where
  "extends fs fs' =
     (\<forall>p. (fs p = Some Dir \<longrightarrow> fs' p = Some Dir)
        \<and> (\<forall>c. fs p = Some (File c) \<longrightarrow> (\<exists>c'. fs' p = Some (File c'))))"














section \<open>Properties of the build driver\<close>

lemma runs_append [simp]: "runs (xs @ ys) = runs xs @ runs ys"
  by (simp add: runs_def)

lemma mkdirs_append [simp]: "mkdirs (xs @ ys) = mkdirs xs @ mkdirs ys"
  by (simp add: mkdirs_def)

lemma runs_simps [simp]:
  "runs [] = []" "runs (Run c # tr) = c # runs tr" "runs (Mkdir p # tr) = runs tr"
  "runs (PrintConfiguring x y z # tr) = runs tr" "runs (PrintConfigureFailed x y # tr) = runs tr"
  "runs (PrintBuilding x y z # tr) = runs tr" "runs (PrintBuildFailed x y # tr) = runs tr"
  "runs (PrintAllCompleted # tr) = runs tr"
  by (simp_all add: runs_def)

lemma mkdirs_simps [simp]:
  "mkdirs [] = []" "mkdirs (Run c # tr) = mkdirs tr" "mkdirs (Mkdir p # tr) = p # mkdirs tr"
  "mkdirs (PrintConfiguring x y z # tr) = mkdirs tr" "mkdirs (PrintConfigureFailed x y # tr) = mkdirs tr"
  "mkdirs (PrintBuilding x y z # tr) = mkdirs tr" "mkdirs (PrintBuildFailed x y # tr) = mkdirs tr"
  "mkdirs (PrintAllCompleted # tr) = mkdirs tr"
  by (simp_all add: mkdirs_def)

lemma pairs_loop_append:
  "pairs_loop pl h cd base pk (xs @ ys) tr =
     (case pairs_loop pl h cd base pk xs tr of
        (Inr None, tr') \<Rightarrow> pairs_loop pl h cd base pk ys tr'
      | r \<Rightarrow> r)"
  by (induction xs arbitrary: tr) (auto split: prod.splits sum.splits option.splits)

lemma build_types_loop_pairs:
  "build_types_loop pl h cd base pk pr bts tr = pairs_loop pl h cd base pk (map (Pair pr) bts) tr"
  by (induction bts arbitrary: tr) (auto split: prod.splits sum.splits option.splits)

lemma presets_loop_pairs:
  "presets_loop pl h cd base pk prs bts tr = pairs_loop pl h cd base pk (List.product prs bts) tr"
  by (induction prs arbitrary: tr)
     (auto simp: pairs_loop_append build_types_loop_pairs split: prod.splits sum.splits option.splits)

text \<open>One pair, by cases on the three host answers it consumes.\<close>

lemma build_pair_ok:
  assumes "mkdir_error h (length (mkdirs tr)) = None"
    and "returncode h (length (runs tr)) = 0"
    and "returncode h (Suc (length (runs tr))) = 0"
  shows "\<exists>tr'. build_pair pl h cd base pk (fst pb) (snd pb) tr = (Inr None, tr')
           \<and> mkdirs tr' = mkdirs tr @ [pair_dir pl base pb]
           \<and> runs tr' = runs tr @ pair_cmds pl cd base pk pb"
  using assms by (simp add: build_pair_def Let_def pair_dir_def pair_cmds_def)

lemma build_pair_configure_fails:
  assumes "mkdir_error h (length (mkdirs tr)) = None"
    and "returncode h (length (runs tr)) \<noteq> 0"
  shows "\<exists>tr'. build_pair pl h cd base pk (fst pb) (snd pb) tr
              = (Inr (Some (returncode h (length (runs tr)))), tr')
           \<and> mkdirs tr' = mkdirs tr @ [pair_dir pl base pb]
           \<and> runs tr' = runs tr @ take 1 (pair_cmds pl cd base pk pb)"
  using assms by (simp add: build_pair_def Let_def pair_dir_def pair_cmds_def)

lemma build_pair_build_fails:
  assumes "mkdir_error h (length (mkdirs tr)) = None"
    and "returncode h (length (runs tr)) = 0"
    and "returncode h (Suc (length (runs tr))) \<noteq> 0"
  shows "\<exists>tr'. build_pair pl h cd base pk (fst pb) (snd pb) tr
              = (Inr (Some (returncode h (Suc (length (runs tr))))), tr')
           \<and> mkdirs tr' = mkdirs tr @ [pair_dir pl base pb]
           \<and> runs tr' = runs tr @ pair_cmds pl cd base pk pb"
  using assms by (simp add: build_pair_def Let_def pair_dir_def pair_cmds_def)

lemma pairs_loop_all_ok:
  assumes "\<forall>i < length ps. mkdir_error h (length (mkdirs tr) + i) = None"
    and "\<forall>k < 2 * length ps. returncode h (length (runs tr) + k) = 0"
  shows "\<exists>tr'. pairs_loop pl h cd base pk ps tr = (Inr None, tr')
           \<and> mkdirs tr' = mkdirs tr @ map (pair_dir pl base) ps
           \<and> runs tr' = runs tr @ concat (map (pair_cmds pl cd base pk) ps)"
  using assms
proof (induction ps arbitrary: tr)
  case Nil
  then show ?case by simp
next
  case (Cons pb ps)
  have m0: "mkdir_error h (length (mkdirs tr)) = None"
    using Cons.prems(1) by force
  have r0: "returncode h (length (runs tr)) = 0"
    using Cons.prems(2) by force
  have r1: "returncode h (Suc (length (runs tr))) = 0"
    using Cons.prems(2) [rule_format, of 1] by simp
  from build_pair_ok [OF m0 r0 r1, of pl cd base pk pb]
  obtain tr1 where
    bp: "build_pair pl h cd base pk (fst pb) (snd pb) tr = (Inr None, tr1)"
    and mk: "mkdirs tr1 = mkdirs tr @ [pair_dir pl base pb]"
    and rn: "runs tr1 = runs tr @ pair_cmds pl cd base pk pb"
    by blast
  have lr: "length (runs tr1) = length (runs tr) + 2"
    by (simp add: rn pair_cmds_def)
  have a1: "\<forall>i < length ps. mkdir_error h (length (mkdirs tr1) + i) = None"
    using Cons.prems(1) by (auto simp: mk)
  have a2: "\<forall>k < 2 * length ps. returncode h (length (runs tr1) + k) = 0"
  proof (intro allI impI)
    fix k assume "k < 2 * length ps"
    then have "k + 2 < 2 * length (pb # ps)" by simp
    from Cons.prems(2) [rule_format, OF this] show "returncode h (length (runs tr1) + k) = 0"
      by (simp add: lr add.commute add.left_commute)
  qed
  from Cons.IH [OF a1 a2] obtain tr' where
    "pairs_loop pl h cd base pk ps tr1 = (Inr None, tr')"
    "mkdirs tr' = mkdirs tr1 @ map (pair_dir pl base) ps"
    "runs tr' = runs tr1 @ concat (map (pair_cmds pl cd base pk) ps)"
    by blast
  then show ?case
    by (simp add: bp mk rn)
qed


lemma length_pair_cmds: "length (pair_cmds pl cd base pk pb) = 2"
  by (simp add: pair_cmds_def)

lemma pairs_loop_first_failure:
  assumes "\<forall>i < length ps. mkdir_error h (length (mkdirs tr) + i) = None"
    and "k < 2 * length ps"
    and "returncode h (length (runs tr) + k) \<noteq> 0"
    and "\<forall>j < k. returncode h (length (runs tr) + j) = 0"
  shows "\<exists>tr'. pairs_loop pl h cd base pk ps tr
              = (Inr (Some (returncode h (length (runs tr) + k))), tr')
           \<and> mkdirs tr' = mkdirs tr @ map (pair_dir pl base) (take (Suc (k div 2)) ps)
           \<and> runs tr' = runs tr @ take (Suc k) (concat (map (pair_cmds pl cd base pk) ps))"
  using assms
proof (induction ps arbitrary: tr k)
  case Nil
  then show ?case by simp
next
  case (Cons pb ps)
  have m0: "mkdir_error h (length (mkdirs tr)) = None"
    using Cons.prems(1) by force
  consider (conf) "k = 0" | (build) "k = 1" | (later) "2 \<le> k"
    by linarith
  then show ?case
  proof cases
    case conf
    then have "returncode h (length (runs tr)) \<noteq> 0"
      using Cons.prems(3) by simp
    from build_pair_configure_fails [OF m0 this, of pl cd base pk pb]
    show ?thesis using conf by (auto simp: pair_cmds_def)
  next
    case build
    then have r0: "returncode h (length (runs tr)) = 0"
      using Cons.prems(4) [rule_format, of 0] by simp
    have r1: "returncode h (Suc (length (runs tr))) \<noteq> 0"
      using Cons.prems(3) build by simp
    from build_pair_build_fails [OF m0 r0 r1, of pl cd base pk pb]
    show ?thesis using build by (auto simp: pair_cmds_def)
  next
    case later
    then obtain k' where k: "k = k' + 2"
      by (metis add.commute le_Suc_ex)
    have r0: "returncode h (length (runs tr)) = 0"
      using Cons.prems(4) [rule_format, of 0] k by simp
    have r1: "returncode h (Suc (length (runs tr))) = 0"
      using Cons.prems(4) [rule_format, of 1] k by simp
    from build_pair_ok [OF m0 r0 r1, of pl cd base pk pb]
    obtain tr1 where
      bp: "build_pair pl h cd base pk (fst pb) (snd pb) tr = (Inr None, tr1)"
      and mk: "mkdirs tr1 = mkdirs tr @ [pair_dir pl base pb]"
      and rn: "runs tr1 = runs tr @ pair_cmds pl cd base pk pb"
      by blast
    have lr: "length (runs tr1) = length (runs tr) + 2"
      by (simp add: rn pair_cmds_def)
    have a1: "\<forall>i < length ps. mkdir_error h (length (mkdirs tr1) + i) = None"
      using Cons.prems(1) by (auto simp: mk)
    have a2: "k' < 2 * length ps"
      using Cons.prems(2) k by simp
    have a3: "returncode h (length (runs tr1) + k') \<noteq> 0"
      using Cons.prems(3) k by (simp add: lr add.commute add.left_commute)
    have a4: "\<forall>j < k'. returncode h (length (runs tr1) + j) = 0"
    proof (intro allI impI)
      fix j assume "j < k'"
      then have "j + 2 < k" using k by simp
      from Cons.prems(4) [rule_format, OF this] show "returncode h (length (runs tr1) + j) = 0"
        by (simp add: lr add.commute add.left_commute)
    qed
    from Cons.IH [OF a1 a2 a3 a4] obtain tr' where
      "pairs_loop pl h cd base pk ps tr1 = (Inr (Some (returncode h (length (runs tr1) + k'))), tr')"
      "mkdirs tr' = mkdirs tr1 @ map (pair_dir pl base) (take (Suc (k' div 2)) ps)"
      "runs tr' = runs tr1 @ take (Suc k') (concat (map (pair_cmds pl cd base pk) ps))"
      by blast
    then show ?thesis
      by (simp add: bp mk rn lr k length_pair_cmds add.commute add.left_commute)
  qed
qed

lemma build_pair_returns_nonzero:
  "build_pair pl h cd base pk pr bt tr = (Inr (Some rc), tr') \<Longrightarrow> rc \<noteq> 0"
  by (auto simp: build_pair_def Let_def split: option.splits if_splits)

lemma pairs_loop_returns_nonzero:
  "pairs_loop pl h cd base pk ps tr = (Inr (Some rc), tr') \<Longrightarrow> rc \<noteq> 0"
proof (induction ps arbitrary: tr)
  case Nil
  then show ?case by simp
next
  case (Cons pb ps)
  then show ?case
    by (auto split: prod.splits sum.splits option.splits dest: build_pair_returns_nonzero)
qed

lemma build_pair_falls_through:
  assumes "build_pair pl h cd base pk pr bt tr = (Inr None, tr')"
  shows "returncode h (length (runs tr)) = 0 \<and> returncode h (Suc (length (runs tr))) = 0
           \<and> length (runs tr') = length (runs tr) + 2"
  using assms by (auto simp: build_pair_def Let_def split: option.splits if_splits)

lemma pairs_loop_falls_through:
  assumes "pairs_loop pl h cd base pk ps tr = (Inr None, tr')"
  shows "\<forall>k < 2 * length ps. returncode h (length (runs tr) + k) = 0"
  using assms
proof (induction ps arbitrary: tr)
  case Nil
  then show ?case by simp
next
  case (Cons pb ps)
  from Cons.prems obtain tr1 where
    bp: "build_pair pl h cd base pk (fst pb) (snd pb) tr = (Inr None, tr1)"
    and rest: "pairs_loop pl h cd base pk ps tr1 = (Inr None, tr')"
    by (auto split: prod.splits sum.splits option.splits)
  note ft = build_pair_falls_through [OF bp]
  show ?case
  proof (intro allI impI)
    fix k assume k: "k < 2 * length (pb # ps)"
    consider "k = 0" | "k = 1" | "2 \<le> k" by linarith
    then show "returncode h (length (runs tr) + k) = 0"
    proof cases
      case 1 then show ?thesis using ft by simp
    next
      case 2 then show ?thesis using ft by simp
    next
      case 3
      then obtain k' where k': "k = k' + 2" by (metis add.commute le_Suc_ex)
      then have "k' < 2 * length ps" using k by simp
      from Cons.IH [OF rest, rule_format, OF this] show ?thesis
        using ft k' by (simp add: add.commute add.left_commute)
    qed
  qed
qed

text \<open>
  C3. The driver visits the pairs of presets and build types in the order of their
  cartesian product, presets outermost. With \<open>ps\<close> that list of pairs and every
  \<open>mkdir\<close> succeeding: if all \<open>2 * length ps\<close> commands return 0, \<open>main\<close> returns 0,
  having made the directory of every pair and run both commands of every pair, in order;
  if the \<open>k\<close>-th command (counted from 0, configure and build alternating) is the first
  that returns a non-zero code, \<open>main\<close> returns exactly that code, the directories made
  are those of the first \<open>k div 2 + 1\<close> pairs and the commands run are the first
  \<open>k + 1\<close>; and \<open>main\<close> returns 0 only if every command returned 0.
\<close>

theorem build_main_abort_on_first_failure:
  assumes ps: "ps = List.product (presets_of a) (build_types_of a)"
    and nomk: "\<forall>i < length ps. mkdir_error h i = None"
  shows "((\<forall>k < 2 * length ps. returncode h k = 0) \<longrightarrow>
            fst (build_main pl h a) = Inr 0
          \<and> mkdirs (snd (build_main pl h a)) = map (pair_dir pl (base_build_dir pl a)) ps
          \<and> runs (snd (build_main pl h a))
              = concat (map (pair_cmds pl (resolve pl (cmake a)) (base_build_dir pl a) (package a)) ps))
       \<and> (\<forall>k < 2 * length ps. returncode h k \<noteq> 0 \<and> (\<forall>j < k. returncode h j = 0) \<longrightarrow>
            fst (build_main pl h a) = Inr (returncode h k)
          \<and> mkdirs (snd (build_main pl h a))
              = map (pair_dir pl (base_build_dir pl a)) (take (Suc (k div 2)) ps)
          \<and> runs (snd (build_main pl h a))
              = take (Suc k)
                  (concat (map (pair_cmds pl (resolve pl (cmake a)) (base_build_dir pl a) (package a)) ps)))
       \<and> (fst (build_main pl h a) = Inr 0 \<longrightarrow> (\<forall>k < 2 * length ps. returncode h k = 0))"
proof (intro conjI impI allI)
  let ?cd = "resolve pl (cmake a)" and ?base = "base_build_dir pl a" and ?pk = "package a"
  have main: "build_main pl h a =
     (case pairs_loop pl h ?cd ?base ?pk ps [] of
        (Inl e, tr) \<Rightarrow> (Inl e, tr)
      | (Inr (Some rc), tr) \<Rightarrow> (Inr rc, tr)
      | (Inr None, tr) \<Rightarrow> (Inr 0, tr @ [PrintAllCompleted]))"
    by (simp add: build_main_def presets_loop_pairs ps)
  have nomk': "\<forall>i < length ps. mkdir_error h (length (mkdirs []) + i) = None"
    using nomk by simp
  {
    assume ok: "\<forall>k < 2 * length ps. returncode h k = 0"
    then have "\<forall>k < 2 * length ps. returncode h (length (runs []) + k) = 0" by simp
    from pairs_loop_all_ok [OF nomk' this, of pl ?cd ?base ?pk]
    obtain tr' where "pairs_loop pl h ?cd ?base ?pk ps [] = (Inr None, tr')"
      "mkdirs tr' = map (pair_dir pl ?base) ps"
      "runs tr' = concat (map (pair_cmds pl ?cd ?base ?pk) ps)"
      by auto
    then show "fst (build_main pl h a) = Inr 0"
      and "mkdirs (snd (build_main pl h a)) = map (pair_dir pl ?base) ps"
      and "runs (snd (build_main pl h a)) = concat (map (pair_cmds pl ?cd ?base ?pk) ps)"
      by (simp_all add: main)
  }
  {
    fix k
    assume k: "k < 2 * length ps"
      and bad: "returncode h k \<noteq> 0 \<and> (\<forall>j < k. returncode h j = 0)"
    have b1: "returncode h (length (runs []) + k) \<noteq> 0" using bad by simp
    have b2: "\<forall>j < k. returncode h (length (runs []) + j) = 0" using bad by simp
    from pairs_loop_first_failure [OF nomk' k b1 b2, of pl ?cd ?base ?pk]
    obtain tr' where "pairs_loop pl h ?cd ?base ?pk ps [] = (Inr (Some (returncode h k)), tr')"
      "mkdirs tr' = map (pair_dir pl ?base) (take (Suc (k div 2)) ps)"
      "runs tr' = take (Suc k) (concat (map (pair_cmds pl ?cd ?base ?pk) ps))"
      by auto
    then show "fst (build_main pl h a) = Inr (returncode h k)"
      and "mkdirs (snd (build_main pl h a)) = map (pair_dir pl ?base) (take (Suc (k div 2)) ps)"
      and "runs (snd (build_main pl h a))
             = take (Suc k) (concat (map (pair_cmds pl ?cd ?base ?pk) ps))"
      by (simp_all add: main)
  }
  {
    fix k
    assume z: "fst (build_main pl h a) = Inr 0" and k: "k < 2 * length ps"
    obtain r tr' where pl: "pairs_loop pl h ?cd ?base ?pk ps [] = (r, tr')"
      by (cases "pairs_loop pl h ?cd ?base ?pk ps []")
    have "r = Inr None"
    proof (cases r)
      case (Inl e)
      then show ?thesis using z pl by (simp add: main)
    next
      case (Inr opt)
      show ?thesis
      proof (cases opt)
        case None
        then show ?thesis using Inr by simp
      next
        case (Some rc)
        then have "rc \<noteq> 0" using pairs_loop_returns_nonzero pl Inr by blast
        then show ?thesis using z pl Inr Some by (simp add: main)
      qed
    qed
    from pairs_loop_falls_through [OF pl [unfolded this], rule_format, OF k]
    show "returncode h k = 0" by simp
  }
qed

theorem build_main_abort_on_first_failure_witness:
  "fst (build_main simple_pathlib host_ok args_AB) = Inr 0
   \<and> mkdirs (snd (build_main simple_pathlib host_ok args_AB))
       = [[''src'', ''build'', ''A'', ''Debug''], [''src'', ''build'', ''A'', ''Release''],
          [''src'', ''build'', ''B'', ''Debug''], [''src'', ''build'', ''B'', ''Release'']]
   \<and> fst (build_main simple_pathlib host_configure_fails args_AB) = Inr 2
   \<and> mkdirs (snd (build_main simple_pathlib host_configure_fails args_AB))
       = [[''src'', ''build'', ''A'', ''Debug'']]"
proof -
  let ?ps = "[(''A'', ''Debug''), (''A'', ''Release''), (''B'', ''Debug''), (''B'', ''Release'')]"
  have ps: "?ps = List.product (presets_of args_AB) (build_types_of args_AB)"
    by (simp add: presets_of_def build_types_of_def args_AB_def)
  have base: "base_build_dir simple_pathlib args_AB = [''src'', ''build'']"
    by (simp add: base_build_dir_def args_AB_def simple_pathlib_def)
  have mk1: "\<forall>i < length ?ps. mkdir_error host_ok i = None"
    by (simp add: host_ok_def)
  have mk2: "\<forall>i < length ?ps. mkdir_error host_configure_fails i = None"
    by (simp add: host_configure_fails_def)
  have ok: "\<forall>k < 2 * length ?ps. returncode host_ok k = 0"
    by (simp add: host_ok_def)
  have bad: "returncode host_configure_fails 0 \<noteq> 0 \<and> (\<forall>j < 0. returncode host_configure_fails j = 0)"
    by (simp add: host_configure_fails_def)
  from build_main_abort_on_first_failure [OF ps mk1, of simple_pathlib] ok
  have a: "fst (build_main simple_pathlib host_ok args_AB) = Inr 0
     \<and> mkdirs (snd (build_main simple_pathlib host_ok args_AB))
         = map (pair_dir simple_pathlib (base_build_dir simple_pathlib args_AB)) ?ps"
    by blast
  from build_main_abort_on_first_failure [OF ps mk2, of simple_pathlib, THEN conjunct2, THEN conjunct1,
      rule_format, of 0] bad
  have b: "fst (build_main simple_pathlib host_configure_fails args_AB) = Inr (returncode host_configure_fails 0)
     \<and> mkdirs (snd (build_main simple_pathlib host_configure_fails args_AB))
         = map (pair_dir simple_pathlib (base_build_dir simple_pathlib args_AB)) (take (Suc (0 div 2)) ?ps)"
    by simp
  have j: "join simple_pathlib p s = p @ [s]" for p s
    by (simp add: simple_pathlib_def)
  have rc: "returncode host_configure_fails 0 = 2"
    by (simp add: host_configure_fails_def)
  show ?thesis
    using a b by (simp add: base pair_dir_def j rc)
qed

text \<open>
  C4 (as amended). When the build step of a pair is reached, its command is
  \<open>cmake --build <dir>\<close>, followed for a non-empty list of packages by one
  \<open>--target\<close> and then every package name as an argument of its own, in the order
  given; for an empty list nothing follows.
\<close>

theorem build_step_target_arguments:
  assumes "mkdir_error h (length (mkdirs tr)) = None"
    and "returncode h (length (runs tr)) = 0"
  shows "last (runs (snd (build_pair pl h cd base pk pr bt tr)))
           = [''cmake'', ''--build'', path_str pl (join pl (join pl base pr) bt)]
               @ (if pk = [] then [] else ''--target'' # pk)"
  using assms by (simp add: build_pair_def Let_def build_cmd_def)

theorem build_step_target_arguments_witness:
  "mkdir_error host_ok (length (mkdirs [])) = None
   \<and> returncode host_ok (length (runs [])) = 0
   \<and> last (runs (snd (build_pair simple_pathlib host_ok [''src''] [''out''] [''core'', ''gui''] ''A'' ''Debug'' [])))
       = [''cmake'', ''--build'', ''/out/A/Debug'', ''--target'', ''core'', ''gui'']
   \<and> last (runs (snd (build_pair simple_pathlib host_ok [''src''] [''out''] [] ''A'' ''Debug'' [])))
       = [''cmake'', ''--build'', ''/out/A/Debug'']"
proof -
  have h1: "mkdir_error host_ok (length (mkdirs [])) = None"
    and h2: "returncode host_ok (length (runs [])) = 0"
    by (simp_all add: host_ok_def)
  from build_step_target_arguments [OF h1 h2, of simple_pathlib "[''src'']" "[''out'']" "[''core'', ''gui'']" "''A''" "''Debug''"]
       build_step_target_arguments [OF h1 h2, of simple_pathlib "[''src'']" "[''out'']" "[]" "''A''" "''Debug''"]
       h1 h2
  show ?thesis by (simp add: simple_pathlib_def)
qed

text \<open>
  The claim C4 as stated fails for two packages: the build command has two target
  arguments, and the string that combines the names is only printed.
\<close>

theorem combined_target_string_not_passed:
  "runs (snd (build_main simple_pathlib host_ok args_AB)) ! 1
     = [''cmake'', ''--build'', ''/src/build/A/Debug'', ''--target'', ''core'', ''gui'']
   \<and> packages_str (package args_AB) = ''core;gui''
   \<and> ''core;gui'' \<notin> set (runs (snd (build_main simple_pathlib host_ok args_AB)) ! 1)"
  by code_simp

section \<open>Properties of the gatherer\<close>

text \<open>
  C6. The name the code shows for a \<open>git\<close> entry against the name the specification
  describes: the code cuts the URL at its first \<open>@\<close> and removes every \<open>.git\<close>
  of the last segment, so the two differ.
\<close>

theorem repo_name_removes_inner_git:
  "repo_name ''https://github.com/octocat/octocat.github.io'' = ''octocathub.io''
   \<and> repo_name_spec ''https://github.com/octocat/octocat.github.io'' = ''octocat.github.io''
   \<and> repo_name ''git@github.com:user/repo.git@v1'' = ''git''
   \<and> repo_name_spec ''git@github.com:user/repo.git@v1'' = ''repo''"
  by code_simp


lemma files_print [simp]: "files (print e w) = files w"
  by (simp add: print_def)

lemma out_print [simp]: "out (print e w) = out w @ [e]"
  by (simp add: print_def)


lemma verify_yaml_quiet [simp]: "snd (verify_yaml L fs p False) = []"
  by (simp add: verify_yaml_def Let_def split: sum.splits)



lemma copy_descriptor_bumps:
  "copy_descriptor L cd vb idx tot yp pd cnt w = (Inr cnt', w') \<Longrightarrow> cnt' = cnt\<lparr>copied := copied cnt + 1\<rparr>"
  by (auto simp: copy_descriptor_def Let_def split: option.splits sum.splits yaml.splits if_splits)

lemma gather_local_bumps:
  "gather_local L cd vb idx tot pp cnt w = (Inr cnt', w') \<Longrightarrow>
     cnt' = cnt\<lparr>copied := copied cnt + 1\<rparr> \<or> cnt' = cnt\<lparr>errors := errors cnt + 1\<rparr>"
  by (auto simp: gather_local_def Let_def split: if_splits prod.splits dest: copy_descriptor_bumps)

lemma process_entry_bumps:
  "process_entry L md cd vb tot idx entry cnt w = (Inr cnt', w') \<Longrightarrow> bumps_one cnt cnt'"
  unfolding process_entry_def bumps_one_def
  by (auto split: sum.splits if_splits yaml.splits dest: gather_local_bumps)

lemma bumps_one_sum:
  "bumps_one cnt cnt' \<Longrightarrow>
     copied cnt' + skipped cnt' + errors cnt' = Suc (copied cnt + skipped cnt + errors cnt)"
  by (auto simp: bumps_one_def)

lemma entries_loop_counts:
  "entries_loop L md cd vb tot idx es cnt w = (Inr cnt', w') \<Longrightarrow>
     copied cnt' + skipped cnt' + errors cnt' = copied cnt + skipped cnt + errors cnt + length es"
proof (induction es arbitrary: idx cnt w)
  case Nil
  then show ?case by simp
next
  case (Cons entry rest)
  from Cons.prems obtain cnt1 w1 where
    step: "process_entry L md cd vb tot idx entry cnt w = (Inr cnt1, w1)"
    and rest: "entries_loop L md cd vb tot (Suc idx) rest cnt1 w1 = (Inr cnt', w')"
    by (auto split: prod.splits sum.splits)
  from Cons.IH [OF rest] bumps_one_sum [OF process_entry_bumps [OF step]]
  show ?case by simp
qed

text \<open>
  C10. When \<open>gather_packages_from_manifest\<close> returns for a manifest whose \<open>packages\<close>
  is a non-empty list, the three counters it prints add up to the number of entries, the
  value returned is the copied counter, and every step of the loop that completes adds
  one to exactly one counter.
\<close>

theorem counters_partition_entries:
  assumes "gather_packages_from_manifest L m cd cl vb w = (Inr n, w')"
    and "dict_get m ''packages'' (YList []) = YList es"
    and "es \<noteq> []"
  shows "(\<exists>c s e. last (out w') = Results c s e \<and> n = c \<and> c + s + e = length es)
       \<and> (\<forall>md tot idx entry cnt w1 cnt1 w2.
            process_entry L md cd vb tot idx entry cnt w1 = (Inr cnt1, w2) \<longrightarrow> bumps_one cnt cnt1)"
proof
  from assms obtain md w1 cnt w2 where
    loop: "entries_loop L md cd vb (length es) 1 es no_counts w1 = (Inr cnt, w2)"
    and n: "n = copied cnt"
    and w': "w' = print (Results (copied cnt) (skipped cnt) (errors cnt)) w2"
    by (auto simp: gather_packages_from_manifest_def Let_def
             split: yaml.splits if_splits prod.splits sum.splits)
  from entries_loop_counts [OF loop]
  have "copied cnt + skipped cnt + errors cnt = length es"
    by (simp add: no_counts_def)
  then show "\<exists>c s e. last (out w') = Results c s e \<and> n = c \<and> c + s + e = length es"
    using n w' by simp
next
  show "\<forall>md tot idx entry cnt w1 cnt1 w2.
            process_entry L md cd vb tot idx entry cnt w1 = (Inr cnt1, w2) \<longrightarrow> bumps_one cnt cnt1"
    using process_entry_bumps by blast
qed

theorem counters_partition_entries_witness:
  "fst (gather_packages_from_manifest demo_libs demo_loaded [''.cache''] False False demo_world) = Inr 1
   \<and> (\<exists>c s e. last (out (snd (gather_packages_from_manifest demo_libs demo_loaded [''.cache''] False False
                                 demo_world))) = Results c s e
         \<and> 1 = c \<and> c + s + e = 3)"
proof -
  let ?r = "gather_packages_from_manifest demo_libs demo_loaded [''.cache''] False False demo_world"
  have f: "fst ?r = Inr 1" by code_simp
  then have h1: "?r = (Inr 1, snd ?r)" by (simp add: prod_eq_iff)
  have h2: "dict_get demo_loaded ''packages'' (YList [])
        = YList [YDict [(YStr ''local'', YStr ''/pkgs/a'')],
              YDict [(YStr ''local'', YStr ''/pkgs/missing'')],
              YDict [(YStr ''git'', YStr ''https://example.org/team/tool.git@v1'')]]"
    by (simp add: demo_loaded_def dict_get_def)
  from counters_partition_entries [OF h1 h2]
  have "\<exists>c s e. last (out (snd ?r)) = Results c s e \<and> 1 = c \<and> c + s + e = 3"
    by fastforce
  with f show ?thesis by blast
qed

text \<open>
  C7 (as amended). A mapping entry that carries the \<open>git\<close> tag with a string URL and
  does not carry the \<open>local\<close> tag is counted under skipped and under no other counter,
  and the file system is left as it was: nothing is fetched.
\<close>

theorem git_only_entry_skipped:
  assumes "map_of kvs (YStr ''local'') = None"
    and "map_of kvs (YStr ''git'') = Some (YStr url)"
  shows "process_entry L md cd vb tot idx (YDict kvs) cnt w
           = (Inr (cnt\<lparr>skipped := skipped cnt + 1\<rparr>),
              if vb then print (SkippingGit idx tot (repo_name url)) w else w)
       \<and> files (snd (process_entry L md cd vb tot idx (YDict kvs) cnt w)) = files w"
  using assms by (simp add: process_entry_def)

theorem git_only_entry_skipped_witness:
  "map_of [(YStr ''git'', YStr ''https://example.org/team/tool.git@v1'')] (YStr ''local'') = None
   \<and> fst (process_entry demo_libs [] [''cache''] True 3 3
            (YDict [(YStr ''git'', YStr ''https://example.org/team/tool.git@v1'')]) no_counts demo_world)
       = Inr \<lparr>copied = 0, skipped = 1, errors = 0\<rparr>
   \<and> files (snd (process_entry demo_libs [] [''cache''] True 3 3
            (YDict [(YStr ''git'', YStr ''https://example.org/team/tool.git@v1'')]) no_counts demo_world))
       = demo_files"
proof -
  have h1: "map_of [(YStr ''git'', YStr ''https://example.org/team/tool.git@v1'')] (YStr ''local'') = None"
    and h2: "map_of [(YStr ''git'', YStr ''https://example.org/team/tool.git@v1'')] (YStr ''git'')
               = Some (YStr ''https://example.org/team/tool.git@v1'')"
    by simp_all
  from git_only_entry_skipped [OF h1 h2, of demo_libs "[]" "[''cache'']" True 3 3 no_counts demo_world] h1
  show ?thesis by (simp add: no_counts_def demo_world_def)
qed

text \<open>
  The claim C7 as stated fails for an entry that carries both tags: \<open>local\<close> is tested
  first, and the entry is copied.
\<close>

theorem entry_with_both_tags_is_copied:
  "py_in ''git'' both_tags_entry = Inr True
   \<and> fst (process_entry demo_libs [] [''cache''] False 1 1 both_tags_entry no_counts demo_world)
       = Inr \<lparr>copied = 1, skipped = 0, errors = 0\<rparr>
   \<and> files (snd (process_entry demo_libs [] [''cache''] False 1 1 both_tags_entry no_counts demo_world))
       [''cache'', ''A'', ''ArieoPackage.yaml''] = Some (File ''name: A'')"
  by code_simp

text \<open>
  C8. For a loaded manifest (its \<open>_manifest_dir\<close> is a string, or absent) whose
  \<open>packages\<close> is missing or empty, \<open>gather_packages_from_manifest\<close> prints that no
  packages are defined and returns 0, whatever \<open>clean\<close> is; the file system, the cache
  directory included, is unchanged.
\<close>

theorem empty_packages_returns_before_clean:
  assumes "is_str (dict_get m ''_manifest_dir'' (YStr ''.''))"
    and "\<not> truthy (dict_get m ''packages'' (YList []))"
  shows "gather_packages_from_manifest L m cd cl vb w = (Inr 0, print NoPackagesDefined w)
       \<and> files (snd (gather_packages_from_manifest L m cd cl vb w)) = files w"
  using assms
  by (cases "dict_get m ''_manifest_dir'' (YStr ''.'')")
     (simp_all add: gather_packages_from_manifest_def Let_def)

theorem empty_packages_returns_before_clean_witness:
  "is_str (dict_get demo_loaded_empty ''_manifest_dir'' (YStr ''.''))
   \<and> \<not> truthy (dict_get demo_loaded_empty ''packages'' (YList []))
   \<and> fst (gather_packages_from_manifest demo_libs demo_loaded_empty [''pkgs''] True True demo_world) = Inr 0
   \<and> files (snd (gather_packages_from_manifest demo_libs demo_loaded_empty [''pkgs''] True True demo_world))
       = demo_files
   \<and> out (snd (gather_packages_from_manifest demo_libs demo_loaded_empty [''pkgs''] True True demo_world))
       = [NoPackagesDefined]"
proof -
  have h1: "is_str (dict_get demo_loaded_empty ''_manifest_dir'' (YStr ''.''))"
    and h2: "\<not> truthy (dict_get demo_loaded_empty ''packages'' (YList []))"
    by (simp_all add: demo_loaded_empty_def dict_get_def)
  from empty_packages_returns_before_clean [OF h1 h2, of demo_libs "[''pkgs'']" True True demo_world] h1 h2
  show ?thesis by (simp add: demo_world_def)
qed

lemma load_manifest_reads_only_exit:
  "load_manifest L fs arg = (Inl e, evs) \<Longrightarrow> e = SystemExit 1"
  by (auto simp: load_manifest_def read_manifest_def Let_def
           split: option.splits list.splits if_splits sum.splits yaml.splits)

lemma load_manifest_sets_dir:
  "load_manifest L fs arg = (Inr m, evs) \<Longrightarrow> is_str (dict_get m ''_manifest_dir'' (YStr ''.''))"
  by (auto simp: load_manifest_def read_manifest_def Let_def dict_get_def update_conv'
           split: option.splits list.splits if_splits sum.splits yaml.splits)

lemma load_manifest_path:
  "load_manifest L fs (arg_manifest_file a) =
     (if exists_path fs (manifest_path_of L a) then read_manifest L fs (manifest_path_of L a)
      else (Inl (SystemExit 1),
            [case arg_manifest_file a of
               None \<Rightarrow> ManifestNotFound
             | Some s \<Rightarrow> if s = [] then ManifestNotFound else ManifestNotFoundAt (manifest_path_of L a)]))"
  by (auto simp: load_manifest_def manifest_path_of_def Let_def split: option.splits list.splits)

text \<open>
  C1. When \<open>main\<close> reaches the gathering and \<open>gather_packages_from_manifest\<close> returns
  the count \<open>n\<close>, the process exits with status 0 if \<open>n > 0\<close> and with status 1 if
  \<open>n = 0\<close>, whatever the other counters are. When the manifest file is missing, cannot
  be read or cannot be parsed, the process exits with status 1, having printed only the
  banner and the error and leaving the file system untouched.
\<close>

theorem exit_status_by_copied_count:
  "(startup L a w0 = (Inr (m, cd), w)
      \<and> gather_packages_from_manifest L m cd (arg_clean a) (arg_verbose a) w = (Inr n, w') \<longrightarrow>
        fst (gatherer_main L a w0) = SystemExit (if 0 < n then 0 else 1)
      \<and> exit_status (fst (gatherer_main L a w0)) = (if 0 < n then 0 else 1))
   \<and> ((files w0 (manifest_path_of L a) = None
        \<or> (\<exists>e. read_text (files w0) (manifest_path_of L a) = Inl e)
        \<or> (\<exists>c msg. read_text (files w0) (manifest_path_of L a) = Inr c \<and> safe_load L c = Inl msg)) \<longrightarrow>
        fst (gatherer_main L a w0) = SystemExit 1
      \<and> files (snd (gatherer_main L a w0)) = files w0
      \<and> (\<exists>ev. out (snd (gatherer_main L a w0)) = out w0 @ [Banner, ev]))"
proof (intro conjI impI)
  assume run: "startup L a w0 = (Inr (m, cd), w)
      \<and> gather_packages_from_manifest L m cd (arg_clean a) (arg_verbose a) w = (Inr n, w')"
  then show "fst (gatherer_main L a w0) = SystemExit (if 0 < n then 0 else 1)"
    by (simp add: gatherer_main_def)
  then show "exit_status (fst (gatherer_main L a w0)) = (if 0 < n then 0 else 1)"
    by simp
next
  assume bad: "files w0 (manifest_path_of L a) = None
        \<or> (\<exists>e. read_text (files w0) (manifest_path_of L a) = Inl e)
        \<or> (\<exists>c msg. read_text (files w0) (manifest_path_of L a) = Inr c \<and> safe_load L c = Inl msg)"
  have "\<exists>ev. load_manifest L (files w0) (arg_manifest_file a) = (Inl (SystemExit 1), [ev])"
    using bad
    by (auto simp: load_manifest_path exists_path_def read_manifest_def split: sum.splits)
  then obtain ev where "load_manifest L (files w0) (arg_manifest_file a) = (Inl (SystemExit 1), [ev])"
    by blast
  then have "gatherer_main L a w0 = (SystemExit 1, (print Banner w0)\<lparr>out := out w0 @ [Banner, ev]\<rparr>)"
    by (simp add: gatherer_main_def startup_def Let_def)
  then show "fst (gatherer_main L a w0) = SystemExit 1"
    and "files (snd (gatherer_main L a w0)) = files w0"
    and "\<exists>ev. out (snd (gatherer_main L a w0)) = out w0 @ [Banner, ev]"
    by simp_all
qed

theorem exit_status_by_copied_count_witness:
  "fst (startup demo_libs demo_args demo_world) = Inr (demo_loaded, [''.cache''])
   \<and> fst (gather_packages_from_manifest demo_libs demo_loaded [''.cache''] False False
            (snd (startup demo_libs demo_args demo_world))) = Inr 1
   \<and> fst (gatherer_main demo_libs demo_args demo_world) = SystemExit 0
   \<and> files demo_world (manifest_path_of demo_libs demo_args_missing) = None
   \<and> fst (gatherer_main demo_libs demo_args_missing demo_world) = SystemExit 1
   \<and> files (snd (gatherer_main demo_libs demo_args_missing demo_world)) = files demo_world"
proof -
  let ?s = "startup demo_libs demo_args demo_world"
  let ?g = "gather_packages_from_manifest demo_libs demo_loaded [''.cache''] False False (snd ?s)"
  have s: "fst ?s = Inr (demo_loaded, [''.cache''])" by code_simp
  have g: "fst ?g = Inr 1" by code_simp
  have h1: "?s = (Inr (demo_loaded, [''.cache'']), snd ?s)" using s by (simp add: prod_eq_iff)
  have h2: "gather_packages_from_manifest demo_libs demo_loaded [''.cache'']
              (arg_clean demo_args) (arg_verbose demo_args) (snd ?s) = (Inr 1, snd ?g)"
    using g by (simp add: prod_eq_iff demo_args_def)
  have m: "files demo_world (manifest_path_of demo_libs demo_args_missing) = None"
    by (simp add: demo_world_def demo_files_def manifest_path_of_def demo_args_missing_def
                  demo_libs_def path_parts_def)
  from exit_status_by_copied_count [of demo_libs demo_args demo_world demo_loaded "[''.cache'']" "snd ?s" 1 "snd ?g"]
       h1 h2
  have a: "fst (gatherer_main demo_libs demo_args demo_world) = SystemExit 0" by simp
  from exit_status_by_copied_count [of demo_libs demo_args_missing demo_world] m
  have b: "fst (gatherer_main demo_libs demo_args_missing demo_world) = SystemExit 1
         \<and> files (snd (gatherer_main demo_libs demo_args_missing demo_world)) = files demo_world"
    by blast
  show ?thesis using s g a b m by simp
qed


section \<open>Running the loop twice, and entries that share a destination\<close>


lemma extends_refl [simp]: "extends fs fs"
  by (simp add: extends_def)




lemma extends_NoneD: "extends fs fs' \<Longrightarrow> fs' p = None \<Longrightarrow> fs p = None"
  unfolding extends_def by (metis node.exhaust option.exhaust option.distinct(1))










lemma wf_fs_parent: "wf_fs fs \<Longrightarrow> fs p \<noteq> None \<Longrightarrow> p \<noteq> [] \<Longrightarrow> fs (butlast p) = Some Dir"
  unfolding wf_fs_def by (metis append_butlast_last_id)

lemma wf_fs_prefix_dir:
  assumes "wf_fs fs" and "fs p \<noteq> None" and "strict_prefix q p"
  shows "fs q = Some Dir"
  using assms(2,3)
proof (induction p rule: rev_induct)
  case Nil
  then show ?case by simp
next
  case (snoc c p)
  from assms(1) snoc.prems(1) have d: "fs p = Some Dir"
    by (auto simp: wf_fs_def)
  from snoc.prems(2) have "prefix q p"
    by (metis prefix_order.less_imp_le prefix_snoc strict_prefix_def)
  then show ?case
    using d snoc.IH by (cases "q = p") (auto simp: strict_prefix_def)
qed









































end
